theory Spec2Isabelle
  imports Complex_Main
begin

section \<open>Numbers and failures\<close>

text \<open>
  The program computes with double-precision floats. A finite float is modelled as a real
  number: rounding and overflow are outside the model. What the program does where an
  operation has no real result depends on the kind of float it was given:
  \<^item> with Python floats a zero divisor raises ZeroDivisionError, and a negative number to
    the power 0.5 is a complex number;
  \<^item> with numpy.float64 scalars the same operations return inf or nan (numpy prints a
    RuntimeWarning) and the computation goes on.
  \<open>math.acos\<close> raises ValueError outside \<open>[-1, 1]\<close> for both.

  The rows that \<open>main\<close> takes from pandas hold numpy.float64 scalars when every column of
  the table is numeric, and Python floats when the table also has a column of another
  type. Both give the same finite results. The functions are modelled once for each kind:
  first on Python floats, with the failures as values, then on numpy.float64 scalars.
\<close>

datatype failure =
    ValueError
  | ZeroDivision
  | NegativeBase
  | KeyError
  | UnboundLocalError

text \<open>
  \<^item> \<open>ValueError\<close>: \<open>math.acos\<close> outside \<open>[-1, 1]\<close> raises ValueError ("math domain error").
  \<^item> \<open>ZeroDivision\<close>: a Python float divided by zero raises ZeroDivisionError.
  \<^item> \<open>NegativeBase\<close>: a negative Python float to the power 0.5 is a complex number and no
    float any more; the row then ends with an exception (ZeroDivisionError from a later
    zero divisor, or else TypeError from \<open>round\<close>).
  \<^item> \<open>KeyError\<close>: a row without the column that is read.
  \<^item> \<open>UnboundLocalError\<close>: a local variable read before any assignment.
\<close>

definition and_then :: "failure + 'a \<Rightarrow> ('a \<Rightarrow> failure + 'b) \<Rightarrow> failure + 'b" where
  "and_then m f = (case m of Inl e \<Rightarrow> Inl e | Inr v \<Rightarrow> f v)"

definition py_div :: "real \<Rightarrow> real \<Rightarrow> failure + real" where
  "py_div a b = (if b = 0 then Inl ZeroDivision else Inr (a / b))"

definition pow_half :: "real \<Rightarrow> failure + real" where
  "pow_half x = (if x < 0 then Inl NegativeBase else Inr (sqrt x))"

text \<open>
  Divisions by a literal constant (2, 200, 365, 180, \<open>math.pi\<close>) cannot fail and are
  written with HOL's division.

  The real tangent has no value at an odd multiple of \<open>pi/2\<close> (HOL's \<open>tan\<close> is 0 there).
  The float nearest to such a multiple is not the multiple itself, and its tangent is a
  float of magnitude above \<open>10^15\<close> (\<open>math.tan(90 * math.pi / 180)\<close> is
  \<open>1.633123935319537e+16\<close>). The model has the value \<open>Huge\<close> for it: times a number
  other than zero it stays \<open>Huge\<close>, which is outside the domain of \<open>math.acos\<close>.
\<close>

datatype tangent = Tan real | Huge

definition math_tan :: "real \<Rightarrow> tangent" where
  "math_tan x = (if cos x = 0 then Huge else Tan (tan x))"

text \<open>The product \<open>-a * b\<close> of two tangents.\<close>

fun minus_times :: "tangent \<Rightarrow> tangent \<Rightarrow> tangent" where
  "minus_times (Tan a) (Tan b) = Tan (- a * b)"
| "minus_times Huge (Tan b) = (if b = 0 then Tan 0 else Huge)"
| "minus_times (Tan a) Huge = (if a = 0 then Tan 0 else Huge)"
| "minus_times Huge Huge = Huge"

fun math_acos :: "tangent \<Rightarrow> failure + real" where
  "math_acos (Tan x) = (if - 1 \<le> x \<and> x \<le> 1 then Inr (arccos x) else Inl ValueError)"
| "math_acos Huge = Inl ValueError"

section \<open>Constants\<close>

definition albedo :: real where "albedo = 0.23"
definition a_s :: real where "a_s = 0.25"
definition b_s :: real where "b_s = 0.50"

section \<open>Vapour pressure\<close>

definition calculate_VPD :: "real \<Rightarrow> real \<Rightarrow> real \<Rightarrow> real \<Rightarrow> failure + (real \<times> real)" where
  "calculate_VPD Tmin Tmax RHmin RHmax =
     and_then (py_div (17.27 * Tmin) (Tmin + 237.3)) (\<lambda>q_min.
     and_then (py_div (17.27 * Tmax) (Tmax + 237.3)) (\<lambda>q_max.
       let e0T_min = 0.618 * exp q_min;
           e0T_max = 0.618 * exp q_max;
           es = (e0T_min + e0T_max) / 2;
           ea = ((e0T_min * RHmax) + (e0T_max * RHmin)) / 200
       in Inr (es, ea)))"

text \<open>
  The saturation vapour pressure of the specification, as a formula on the reals
  (it is meant for \<open>T \<noteq> -237.3\<close> only).
\<close>

definition satVP :: "real \<Rightarrow> real" where
  "satVP T = 0.618 * exp (17.27 * T / (T + 237.3))"

section \<open>Slope of the vapour pressure curve\<close>

definition calculate_delta :: "real \<Rightarrow> failure + real" where
  "calculate_delta T_mean =
     and_then (py_div (17.27 * T_mean) (T_mean + 237.3)) (\<lambda>q.
       py_div (4098 * 0.6108 * exp q) ((T_mean + 237.3) ^ 2))"

section \<open>Penman-Monteith\<close>

definition penman_monteith ::
  "real \<Rightarrow> real \<Rightarrow> real \<Rightarrow> real \<Rightarrow> real \<Rightarrow> real \<Rightarrow> real \<Rightarrow> real \<Rightarrow> failure + real" where
  "penman_monteith T delta wind_speed Rn_value air_pressure gamma ea es =
     and_then (py_div 900 (T + 273)) (\<lambda>q.
       py_div ((0.408 * delta * Rn_value) + (gamma * q * wind_speed * (es - ea)))
              (delta + gamma * (1 + (0.34 * wind_speed))))"

section \<open>Net radiation\<close>

text \<open>
  \<open>math.acos\<close> is the call with a restricted domain; the two divisions by a computed
  value are \<open>(b_s * n) / N\<close> and \<open>Rs / Rs0\<close>. The steps are in the order in which the
  source evaluates them.
\<close>

definition Rn :: "real \<Rightarrow> real \<Rightarrow> real \<Rightarrow> real \<Rightarrow> real \<Rightarrow> real \<Rightarrow> real \<Rightarrow> failure + real" where
  "Rn lat doy n ea T_min T_max altitude =
     (let latitude = lat * pi / 180;
          d_r = 1 + 0.033 * cos (2 * pi * doy / 365);
          solar_declination = 0.409 * sin (2 * pi * doy / 365 - 1.39)
      in and_then (math_acos (minus_times (math_tan latitude) (math_tan solar_declination)))
           (\<lambda>sunset_hour_angle.
           let Ra = 24 * 60 / pi * 0.082 * d_r *
                      (sunset_hour_angle * sin latitude * sin solar_declination
                       + cos latitude * cos solar_declination * sin sunset_hour_angle);
               N = (24 * sunset_hour_angle) / pi
           in and_then (py_div (b_s * n) N) (\<lambda>sunshine_ratio.
              let Rs = (a_s + sunshine_ratio) * Ra;
                  Rs0 = (0.75 + (2 / 10 ^ 5) * altitude) * Ra;
                  Rns = (1 - albedo) * Rs
              in and_then (pow_half ea) (\<lambda>root_ea.
                 and_then (py_div (1.35 * Rs) Rs0) (\<lambda>clearness.
                   let Rnl = 4.903 / 10 ^ 9 * (((T_min + 273.16) ^ 4 + (T_max + 273) ^ 4) / 2)
                               * (0.34 - (0.14 * root_ea)) * (clearness - 0.35)
                   in Inr (Rns - Rnl))))))"

text \<open>
  The quantities of the radiation model as the specification words them (section 4.3,
  steps 1 to 8), as formulas on the reals. They are compared with \<open>Rn\<close> below.
\<close>

definition spec_declination :: "real \<Rightarrow> real" where
  "spec_declination doy = 0.409 * sin (2 * pi * doy / 365 - 1.39)"

definition spec_sunset_angle :: "real \<Rightarrow> real \<Rightarrow> real" where
  "spec_sunset_angle lat doy = arccos (- tan (lat * pi / 180) * tan (spec_declination doy))"

definition spec_Ra :: "real \<Rightarrow> real \<Rightarrow> real" where
  "spec_Ra lat doy =
     (24 * 60 / pi) * 0.082 * (1 + 0.033 * cos (2 * pi * doy / 365)) *
       (spec_sunset_angle lat doy * sin (lat * pi / 180) * sin (spec_declination doy)
        + cos (lat * pi / 180) * cos (spec_declination doy) * sin (spec_sunset_angle lat doy))"

definition spec_N :: "real \<Rightarrow> real \<Rightarrow> real" where
  "spec_N lat doy = 24 * spec_sunset_angle lat doy / pi"

definition spec_Rs :: "real \<Rightarrow> real \<Rightarrow> real \<Rightarrow> real" where
  "spec_Rs lat doy n = (0.25 + 0.50 * n / spec_N lat doy) * spec_Ra lat doy"

definition spec_Rs0 :: "real \<Rightarrow> real \<Rightarrow> real \<Rightarrow> real" where
  "spec_Rs0 lat doy altitude = (0.75 + 2 / 10 ^ 5 * altitude) * spec_Ra lat doy"

section \<open>The same functions on numpy.float64 scalars\<close>

text \<open>
  A numpy.float64 value is a finite number, an infinity or not-a-number. The arithmetic on
  these values is that of IEEE 754, with the finite results exact. Zeros have no sign in
  the model: a zero divisor counts as \<open>+0.0\<close>, which is the zero of \<open>x + (-x)\<close> and of
  \<open>math.acos(1.0)\<close>.
\<close>

datatype val = Fin real | PInf | NInf | NaN

instantiation val :: "{uminus, plus, minus, times}"
begin

fun uminus_val :: "val \<Rightarrow> val" where
  "- Fin a = Fin (- a)"
| "- PInf = NInf"
| "- NInf = PInf"
| "- NaN = NaN"

fun plus_val :: "val \<Rightarrow> val \<Rightarrow> val" where
  "Fin a + Fin b = Fin (a + b)"
| "NaN + b = NaN"
| "a + NaN = NaN"
| "PInf + NInf = NaN"
| "NInf + PInf = NaN"
| "PInf + b = PInf"
| "a + PInf = PInf"
| "NInf + b = NInf"
| "a + NInf = NInf"

definition minus_val :: "val \<Rightarrow> val \<Rightarrow> val" where
  "minus_val a b = a + (- b)"

fun times_val :: "val \<Rightarrow> val \<Rightarrow> val" where
  "Fin a * Fin b = Fin (a * b)"
| "NaN * b = NaN"
| "a * NaN = NaN"
| "Fin a * PInf = (if a = 0 then NaN else if 0 < a then PInf else NInf)"
| "Fin a * NInf = (if a = 0 then NaN else if 0 < a then NInf else PInf)"
| "PInf * Fin b = (if b = 0 then NaN else if 0 < b then PInf else NInf)"
| "NInf * Fin b = (if b = 0 then NaN else if 0 < b then NInf else PInf)"
| "PInf * PInf = PInf"
| "PInf * NInf = NInf"
| "NInf * PInf = NInf"
| "NInf * NInf = PInf"

instance ..

end

text \<open>Division: a zero divisor gives an infinity, or not-a-number for \<open>0 / 0\<close>.\<close>

fun np_div :: "val \<Rightarrow> val \<Rightarrow> val" where
  "np_div (Fin a) (Fin b) =
     (if b = 0 then (if a = 0 then NaN else if 0 < a then PInf else NInf) else Fin (a / b))"
| "np_div NaN b = NaN"
| "np_div a NaN = NaN"
| "np_div (Fin a) PInf = Fin 0"
| "np_div (Fin a) NInf = Fin 0"
| "np_div PInf (Fin b) = (if 0 \<le> b then PInf else NInf)"
| "np_div NInf (Fin b) = (if 0 \<le> b then NInf else PInf)"
| "np_div PInf PInf = NaN"
| "np_div PInf NInf = NaN"
| "np_div NInf PInf = NaN"
| "np_div NInf NInf = NaN"

text \<open>\<open>x ** 0.5\<close>, as C's \<open>pow\<close>: not-a-number for a negative finite number.\<close>

fun np_pow_half :: "val \<Rightarrow> val" where
  "np_pow_half (Fin a) = (if a < 0 then NaN else Fin (sqrt a))"
| "np_pow_half PInf = PInf"
| "np_pow_half NInf = PInf"
| "np_pow_half NaN = NaN"

text \<open>\<open>math.exp\<close> of a numpy.float64 value.\<close>

fun math_exp :: "val \<Rightarrow> val" where
  "math_exp (Fin a) = Fin (exp a)"
| "math_exp PInf = PInf"
| "math_exp NInf = Fin 0"
| "math_exp NaN = NaN"

definition np_calculate_VPD :: "real \<Rightarrow> real \<Rightarrow> real \<Rightarrow> real \<Rightarrow> val \<times> val" where
  "np_calculate_VPD Tmin Tmax RHmin RHmax =
     (let e0T_min = Fin 0.618 * math_exp (np_div (Fin (17.27 * Tmin)) (Fin (Tmin + 237.3)));
          e0T_max = Fin 0.618 * math_exp (np_div (Fin (17.27 * Tmax)) (Fin (Tmax + 237.3)));
          es = np_div (e0T_min + e0T_max) (Fin 2);
          ea = np_div ((e0T_min * Fin RHmax) + (e0T_max * Fin RHmin)) (Fin 200)
      in (es, ea))"

definition np_calculate_delta :: "real \<Rightarrow> val" where
  "np_calculate_delta T_mean =
     np_div (Fin (4098 * 0.6108)
               * math_exp (np_div (Fin (17.27 * T_mean)) (Fin (T_mean + 237.3))))
            (Fin ((T_mean + 237.3) ^ 2))"

definition np_Rn :: "real \<Rightarrow> real \<Rightarrow> real \<Rightarrow> val \<Rightarrow> real \<Rightarrow> real \<Rightarrow> real \<Rightarrow> failure + val" where
  "np_Rn lat doy n ea T_min T_max altitude =
     (let latitude = lat * pi / 180;
          d_r = 1 + 0.033 * cos (2 * pi * doy / 365);
          solar_declination = 0.409 * sin (2 * pi * doy / 365 - 1.39)
      in and_then (math_acos (minus_times (math_tan latitude) (math_tan solar_declination)))
           (\<lambda>sunset_hour_angle.
           let Ra = 24 * 60 / pi * 0.082 * d_r *
                      (sunset_hour_angle * sin latitude * sin solar_declination
                       + cos latitude * cos solar_declination * sin sunset_hour_angle);
               N = (24 * sunset_hour_angle) / pi;
               Rs = (Fin a_s + np_div (Fin (b_s * n)) (Fin N)) * Fin Ra;
               Rs0 = Fin ((0.75 + (2 / 10 ^ 5) * altitude) * Ra);
               Rns = Fin (1 - albedo) * Rs;
               Rnl = Fin (4.903 / 10 ^ 9 * (((T_min + 273.16) ^ 4 + (T_max + 273) ^ 4) / 2))
                       * (Fin 0.34 - (Fin 0.14 * np_pow_half ea))
                       * (np_div (Fin 1.35 * Rs) Rs0 - Fin 0.35)
           in Inr (Rns - Rnl)))"

definition np_penman_monteith ::
  "real \<Rightarrow> val \<Rightarrow> real \<Rightarrow> val \<Rightarrow> real \<Rightarrow> real \<Rightarrow> val \<Rightarrow> val \<Rightarrow> val" where
  "np_penman_monteith T delta wind_speed Rn_value air_pressure gamma ea es =
     np_div ((Fin 0.408 * delta * Rn_value)
             + (Fin gamma * np_div (Fin 900) (Fin (T + 273)) * Fin wind_speed * (es - ea)))
            (delta + Fin (gamma * (1 + (0.34 * wind_speed))))"

text \<open>\<open>math.isfinite\<close>: neither an infinity nor not-a-number.\<close>

fun isfinite :: "val \<Rightarrow> bool" where
  "isfinite (Fin a) = True"
| "isfinite PInf = False"
| "isfinite NInf = False"
| "isfinite NaN = False"

section \<open>The pipeline\<close>

text \<open>
  A row of the table that is read is a map from column names to finite numbers, the table
  a list of rows together with the kind of float that its rows hold. Cells that are inf or
  nan in the file are outside the model. \<open>row['lat']\<close> on a row without that column
  raises KeyError.
\<close>

datatype float_kind = PyFloat | NpFloat64

type_synonym row = "string \<Rightarrow> real option"

type_synonym dataframe = "row list"

type_synonym table = "float_kind \<times> dataframe"


definition get_col :: "row \<Rightarrow> string \<Rightarrow> failure + real" where
  "get_col r k = (case r k of None \<Rightarrow> Inl KeyError | Some v \<Rightarrow> Inr v)"

text \<open>
  \<open>round(ET0, 1)\<close>: the nearest multiple of one tenth, a tie going to the even multiple;
  an infinity and not-a-number are returned as they are.
\<close>

definition py_round1 :: "real \<Rightarrow> real" where
  "py_round1 x =
     (let y = x * 10; f = \<lfloor>y\<rfloor>
      in (if y - of_int f < 1 / 2 then of_int f
          else if 1 / 2 < y - of_int f then of_int (f + 1)
          else if even f then of_int f else of_int (f + 1)) / 10)"

fun np_round1 :: "val \<Rightarrow> val" where
  "np_round1 (Fin x) = Fin (py_round1 x)"
| "np_round1 v = v"

text \<open>
  The body of the loop of \<open>main\<close>, up to the value stored in column \<open>ET0\<close>: on a row of
  Python floats, on a row of numpy.float64 scalars, and by the kind of the table.
\<close>

definition py_ET0_of_row :: "row \<Rightarrow> failure + real" where
  "py_ET0_of_row r =
     and_then (get_col r ''lat'') (\<lambda>lat.
     and_then (get_col r ''Tmin'') (\<lambda>Tmin.
     and_then (get_col r ''Tmax'') (\<lambda>Tmax.
     and_then (get_col r ''Tmean'') (\<lambda>Tmean.
     and_then (get_col r ''RHmin'') (\<lambda>RHmin.
     and_then (get_col r ''RHmax'') (\<lambda>RHmax.
     and_then (get_col r ''uz'') (\<lambda>uz.
     and_then (get_col r ''n'') (\<lambda>n.
     and_then (get_col r ''pressure'') (\<lambda>pressure.
     and_then (get_col r ''doy'') (\<lambda>doy.
     and_then (get_col r ''z'') (\<lambda>altitude.
     and_then (calculate_delta Tmean) (\<lambda>delta.
       let gamma = 0.000665 * pressure
       in and_then (calculate_VPD Tmin Tmax RHmin RHmax) (\<lambda>(es, ea).
          and_then (Rn lat doy n ea Tmin Tmax altitude) (\<lambda>solar_radiation.
          and_then (penman_monteith Tmean delta uz solar_radiation pressure gamma ea es) (\<lambda>ET0.
            Inr (py_round1 ET0))))))))))))))))"

definition np_ET0_of_row :: "row \<Rightarrow> failure + val" where
  "np_ET0_of_row r =
     and_then (get_col r ''lat'') (\<lambda>lat.
     and_then (get_col r ''Tmin'') (\<lambda>Tmin.
     and_then (get_col r ''Tmax'') (\<lambda>Tmax.
     and_then (get_col r ''Tmean'') (\<lambda>Tmean.
     and_then (get_col r ''RHmin'') (\<lambda>RHmin.
     and_then (get_col r ''RHmax'') (\<lambda>RHmax.
     and_then (get_col r ''uz'') (\<lambda>uz.
     and_then (get_col r ''n'') (\<lambda>n.
     and_then (get_col r ''pressure'') (\<lambda>pressure.
     and_then (get_col r ''doy'') (\<lambda>doy.
     and_then (get_col r ''z'') (\<lambda>altitude.
       let delta = np_calculate_delta Tmean;
           gamma = 0.000665 * pressure;
           (es, ea) = np_calculate_VPD Tmin Tmax RHmin RHmax
       in and_then (np_Rn lat doy n ea Tmin Tmax altitude) (\<lambda>solar_radiation.
            Inr (np_round1
              (np_penman_monteith Tmean delta uz solar_radiation pressure gamma ea es)))
     )))))))))))"

definition ET0_of_row :: "float_kind \<Rightarrow> row \<Rightarrow> failure + val" where
  "ET0_of_row k r =
     (case k of
        PyFloat \<Rightarrow> and_then (py_ET0_of_row r) (\<lambda>v. Inr (Fin v))
      | NpFloat64 \<Rightarrow> np_ET0_of_row r)"

text \<open>
  \<open>df.at[index, 'ET0'] = ...\<close>: the row as it is written, with its columns as they were
  and the column \<open>ET0\<close> set.
\<close>

definition attach :: "row \<Rightarrow> val \<Rightarrow> (string \<Rightarrow> val option)" where
  "attach r v = (\<lambda>c. if c = ''ET0'' then Some v else map_option Fin (r c))"

text \<open>
  The loop of \<open>main\<close>. An exception in a row ends the run: nothing is caught but
  KeyboardInterrupt.
\<close>

fun main_loop :: "float_kind \<Rightarrow> dataframe \<Rightarrow> failure + (string \<Rightarrow> val option) list" where
  "main_loop k [] = Inr []"
| "main_loop k (r # rs) =
     and_then (ET0_of_row k r) (\<lambda>v.
     and_then (main_loop k rs) (\<lambda>out. Inr (attach r v # out)))"

text \<open>
  What \<open>pd.read_csv\<close> finds at a path: a table, no file (FileNotFoundError), or another
  input/output error with its message. \<open>read_data\<close> assigns \<open>df\<close> in the first case only
  and reads it in its last line in every case; the local variable is modelled as an option,
  \<open>None\<close> while it is unbound. The second component of the result is the text printed.
\<close>

datatype file_state = Csv table | Missing | Unreadable string

definition read_data ::
  "(string \<Rightarrow> file_state) \<Rightarrow> string \<Rightarrow> string list \<Rightarrow> (failure + table) \<times> string list" where
  "read_data fs file out =
     (let (df, out') =
        (case fs file of
           Csv t \<Rightarrow> (Some t, out)
         | Missing \<Rightarrow>
             (None, out @ [''File '' @ [CHR 0x27] @ file @ [CHR 0x27] @ '' not found.''])
         | Unreadable e \<Rightarrow>
             (None, out @ [''An error occurred while reading the file: '' @ e]))
      in (case df of None \<Rightarrow> Inl UnboundLocalError | Some t \<Rightarrow> Inr t, out'))"

text \<open>
  \<open>main\<close> returns the table that \<open>to_csv\<close> writes, with the path it is written to, and its
  return value 0; or the exception that ended the run, in which case nothing is written.
\<close>

definition main ::
  "(string \<Rightarrow> file_state) \<Rightarrow> string \<Rightarrow> string \<Rightarrow>
     (failure + (string \<times> (string \<Rightarrow> val option) list) \<times> int) \<times> string list" where
  "main fs file result =
     (case read_data fs file [] of
        (Inl e, out) \<Rightarrow> (Inl e, out)
      | (Inr (k, df), out) \<Rightarrow>
          (case main_loop k df of
             Inl e \<Rightarrow> (Inl e, out)
           | Inr df' \<Rightarrow>
               (Inr ((result, df'), 0),
                out @ [''Results saved in '' @ [CHR 0x22] @ result @ [CHR 0x22]])))"



section \<open>The formulas of the specification\<close>







section \<open>Results as values\<close>

lemma and_then_Inr [simp]: "and_then (Inr v) f = f v"
  by (simp add: and_then_def)

lemma and_then_Inl [simp]: "and_then (Inl e) f = Inl e"
  by (simp add: and_then_def)

lemma and_then_eq_Inr:
  "and_then m f = Inr y \<longleftrightarrow> (\<exists>v. m = Inr v \<and> f v = Inr y)"
  by (cases m) simp_all

lemma py_div_eq_Inr: "py_div a b = Inr q \<longleftrightarrow> b \<noteq> 0 \<and> q = a / b"
  by (auto simp add: py_div_def)

lemma pow_half_eq_Inr: "pow_half x = Inr r \<longleftrightarrow> 0 \<le> x \<and> r = sqrt x"
  by (auto simp add: pow_half_def)






section \<open>Properties of the vapour pressure model\<close>


lemma calculate_VPD_defined:
  assumes "Tmin \<noteq> - 237.3" and "Tmax \<noteq> - 237.3"
  shows "calculate_VPD Tmin Tmax RHmin RHmax =
           Inr ((satVP Tmin + satVP Tmax) / 2,
                (satVP Tmin * RHmax + satVP Tmax * RHmin) / 200)"
proof -
  have "Tmin + 237.3 \<noteq> 0" and "Tmax + 237.3 \<noteq> 0"
    using assms by auto
  then show ?thesis
    by (simp add: calculate_VPD_def and_then_def py_div_def satVP_def Let_def)
qed

lemma calculate_VPD_undefined:
  assumes "Tmin = - 237.3 \<or> Tmax = - 237.3"
  shows "calculate_VPD Tmin Tmax RHmin RHmax = Inl ZeroDivision"
  using assms by (auto simp add: calculate_VPD_def and_then_def py_div_def)


text \<open>
  C2. For all inputs, \<open>calculate_VPD\<close> returns \<open>es\<close>, the arithmetic mean of the
  saturation vapour pressures at \<open>Tmin\<close> and \<open>Tmax\<close>, and
  \<open>ea = (satVP Tmin * RHmax + satVP Tmax * RHmin) / 200\<close>. The only inputs without
  this result are those with a temperature of -237.3, where the division inside the
  exponent has a zero divisor.
\<close>

theorem calculate_VPD_formula:
  "calculate_VPD Tmin Tmax RHmin RHmax =
     (if Tmin = - 237.3 \<or> Tmax = - 237.3 then Inl ZeroDivision
      else Inr ((satVP Tmin + satVP Tmax) / 2,
                (satVP Tmin * RHmax + satVP Tmax * RHmin) / 200))"
proof (cases "Tmin = - 237.3 \<or> Tmax = - 237.3")
  case True
  then show ?thesis
    using calculate_VPD_undefined [of Tmin Tmax RHmin RHmax] by simp
next
  case False
  then show ?thesis
    using calculate_VPD_defined [of Tmin Tmax RHmin RHmax] by simp
qed

text \<open>
  C9. The result of \<open>penman_monteith\<close> is the same for any two values of its
  \<open>air_pressure\<close> argument, the other arguments being equal.
\<close>

theorem penman_monteith_ignores_air_pressure:
  "penman_monteith T delta wind_speed rn p1 gamma ea es =
   penman_monteith T delta wind_speed rn p2 gamma ea es"
  by (simp add: penman_monteith_def)

section \<open>Bounds on the trigonometric functions\<close>

lemma pi_ge_three: "3 \<le> pi"
proof -
  have "sin (pi / 6) \<le> pi / 6"
    by (rule sin_x_le_x) simp
  then show ?thesis
    by (simp add: sin_30)
qed



lemma declination_range: "\<bar>spec_declination doy\<bar> \<le> 409 / 1000"
proof -
  have "\<bar>sin (2 * pi * doy / 365 - 1.39)\<bar> \<le> 1"
    by (rule abs_sin_le_one)
  then show ?thesis
    by (simp add: spec_declination_def abs_mult)
qed

lemma declination_cos_pos: "0 < cos (spec_declination doy)"
proof -
  have "\<bar>spec_declination doy\<bar> \<le> 409 / 1000"
    by (rule declination_range)
  moreover have "1 \<le> pi / 2"
    using pi_ge_two by simp
  ultimately have "- (pi / 2) < spec_declination doy" and "spec_declination doy < pi / 2"
    by linarith+
  then show ?thesis
    by (rule cos_gt_zero_pi)
qed


text \<open>
  The sunset hour angle step. Away from the poles both tangents are numbers, and
  \<open>math.acos\<close> has a result exactly when their product lies in \<open>[-1, 1]\<close>. At a pole the
  tangent of the latitude is \<open>Huge\<close>, and the step has a result only where the tangent of
  the declination is zero.
\<close>

lemma math_tan_declination:
  "math_tan (spec_declination doy) = Tan (tan (spec_declination doy))"
  using declination_cos_pos [of doy] by (simp add: math_tan_def)

lemma sunset_step:
  assumes "cos (lat * pi / 180) \<noteq> 0"
  shows "math_acos (minus_times (math_tan (lat * pi / 180)) (math_tan (spec_declination doy)))
           = Inr w \<longleftrightarrow>
         - 1 \<le> - tan (lat * pi / 180) * tan (spec_declination doy) \<and>
         - tan (lat * pi / 180) * tan (spec_declination doy) \<le> 1 \<and>
         w = spec_sunset_angle lat doy"
  unfolding math_tan_declination using assms
  by (auto simp add: math_tan_def spec_sunset_angle_def)

lemma sunset_step_pole:
  assumes "cos (lat * pi / 180) = 0"
  shows "math_acos (minus_times (math_tan (lat * pi / 180)) (math_tan (spec_declination doy)))
           = (if tan (spec_declination doy) = 0 then Inr (pi / 2) else Inl ValueError)"
  unfolding math_tan_declination using assms by (simp add: math_tan_def)

lemma Rn_eq_Inr_off_pole:
  assumes "cos (lat * pi / 180) \<noteq> 0"
  shows "Rn lat doy n ea T_min T_max altitude = Inr v \<longleftrightarrow>
     (- 1 \<le> - tan (lat * pi / 180) * tan (spec_declination doy) \<and>
      - tan (lat * pi / 180) * tan (spec_declination doy) \<le> 1) \<and>
     spec_N lat doy \<noteq> 0 \<and> 0 \<le> ea \<and> spec_Rs0 lat doy altitude \<noteq> 0 \<and>
     v = (1 - 0.23) * spec_Rs lat doy n
           - 4.903 / 10 ^ 9 * (((T_min + 273.16) ^ 4 + (T_max + 273) ^ 4) / 2)
             * (0.34 - 0.14 * sqrt ea)
             * (1.35 * spec_Rs lat doy n / spec_Rs0 lat doy altitude - 0.35)"
  unfolding Rn_def Let_def spec_declination_def [symmetric] and_then_eq_Inr
    sunset_step [OF assms] py_div_eq_Inr pow_half_eq_Inr
    spec_Rs_def spec_Rs0_def spec_N_def spec_Ra_def albedo_def a_s_def b_s_def sum.inject
  by blast

lemma Rn_at_pole:
  assumes "cos (lat * pi / 180) = 0"
  shows "Rn lat doy n ea T_min T_max altitude \<noteq> Inr v"
proof
  assume r: "Rn lat doy n ea T_min T_max altitude = Inr v"
  let ?d = "spec_declination doy"
  have t: "tan ?d = 0"
  proof (rule ccontr)
    assume "tan ?d \<noteq> 0"
    then have "Rn lat doy n ea T_min T_max altitude = Inl ValueError"
      unfolding Rn_def Let_def spec_declination_def [symmetric]
      by (simp only: sunset_step_pole [OF assms] if_False and_then_Inl)
    with r show False
      by simp
  qed
  then have s: "sin ?d = 0"
    using declination_cos_pos [of doy] by (simp add: tan_def)
  have a: "math_acos (minus_times (math_tan (lat * pi / 180)) (math_tan ?d)) = Inr (pi / 2)"
    by (simp add: sunset_step_pole [OF assms] t)
  from r have "(0.75 + (2 / 10 ^ 5) * altitude) *
      (24 * 60 / pi * 0.082 * (1 + 0.033 * cos (2 * pi * doy / 365)) *
        (pi / 2 * sin (lat * pi / 180) * sin ?d
         + cos (lat * pi / 180) * cos ?d * sin (pi / 2))) \<noteq> 0"
    unfolding Rn_def Let_def spec_declination_def [symmetric] a and_then_Inr
      and_then_eq_Inr py_div_eq_Inr pow_half_eq_Inr
    by blast
  then show False
    by (simp add: s assms)
qed

lemma Rn_eq_Inr_iff:
  "Rn lat doy n ea T_min T_max altitude = Inr v \<longleftrightarrow>
     cos (lat * pi / 180) \<noteq> 0 \<and>
     (- 1 \<le> - tan (lat * pi / 180) * tan (spec_declination doy) \<and>
      - tan (lat * pi / 180) * tan (spec_declination doy) \<le> 1) \<and>
     spec_N lat doy \<noteq> 0 \<and> 0 \<le> ea \<and> spec_Rs0 lat doy altitude \<noteq> 0 \<and>
     v = (1 - 0.23) * spec_Rs lat doy n
           - 4.903 / 10 ^ 9 * (((T_min + 273.16) ^ 4 + (T_max + 273) ^ 4) / 2)
             * (0.34 - 0.14 * sqrt ea)
             * (1.35 * spec_Rs lat doy n / spec_Rs0 lat doy altitude - 0.35)"
proof (cases "cos (lat * pi / 180) = 0")
  case True
  then show ?thesis
    using Rn_at_pole [of lat doy n ea T_min T_max altitude v] by simp
next
  case False
  then show ?thesis
    by (simp only: Rn_eq_Inr_off_pole [OF False] simp_thms)
qed











lemma declination_midsummer: "0 < spec_declination 180"
proof -
  define a where "a = 2 * pi * 180 / 365 - 1.39"
  have "3 \<le> pi" and "pi < 4"
    by (rule pi_ge_three, rule pi_less_4)
  then have "0 < a" and "a < pi"
    by (simp_all add: a_def)
  then have "0 < sin a"
    by (rule sin_gt_zero)
  then show ?thesis
    by (simp add: spec_declination_def a_def)
qed

lemma declination_below_quarter_pi: "spec_declination doy < pi / 4"
proof -
  have "spec_declination doy \<le> 409 / 1000"
    using declination_range [of doy] by linarith
  moreover have "3 / 4 \<le> pi / 4"
    using pi_ge_three by simp
  ultimately show ?thesis
    by linarith
qed

lemma tan_declination_midsummer:
  "0 < tan (spec_declination 180)" "tan (spec_declination 180) < 1"
proof -
  let ?d = "spec_declination 180"
  have d0: "0 < ?d"
    by (rule declination_midsummer)
  have d1: "?d < pi / 4"
    by (rule declination_below_quarter_pi)
  have d2: "?d < pi / 2"
    using d1 pi_gt_zero by linarith
  show "0 < tan ?d"
    using d0 d2 by (rule tan_gt_zero)
  have "tan ?d < tan (pi / 4)"
    using d0 d1 by (intro tan_monotone) simp_all
  then show "tan ?d < 1"
    by (simp add: tan_45)
qed

lemma sunset_angle_45N_midsummer:
  "0 < spec_sunset_angle 45 180" "spec_sunset_angle 45 180 \<le> pi"
proof -
  let ?t = "tan (spec_declination 180)"
  have eq: "spec_sunset_angle 45 180 = arccos (- ?t)"
    by (simp add: spec_sunset_angle_def tan_45)
  have range: "- 1 \<le> - ?t" "- ?t \<le> 1"
    using tan_declination_midsummer by linarith+
  have "arccos (- ?t) \<noteq> 0"
    using range tan_declination_midsummer(1) arccos_eq_0_iff [of "- ?t"] by simp
  moreover have "0 \<le> arccos (- ?t)"
    using range by (rule arccos_lbound)
  ultimately show "0 < spec_sunset_angle 45 180"
    by (simp add: eq)
  show "spec_sunset_angle 45 180 \<le> pi"
    unfolding eq using range by (rule arccos_ubound)
qed

lemma distance_factor_pos: "- 1 \<le> c \<Longrightarrow> 0 < 1 + 0.033 * (c::real)"
  by simp

lemma Ra_45N_midsummer: "0 < spec_Ra 45 180"
proof -
  let ?w = "spec_sunset_angle 45 180" and ?d = "spec_declination 180"
  have phi: "45 * pi / 180 = pi / 4"
    by simp
  have s: "0 < sqrt 2 / 2"
    by simp
  have d0: "0 < ?d"
    by (rule declination_midsummer)
  have "?d < pi"
    using declination_below_quarter_pi [of 180] pi_gt_zero by linarith
  with d0 have sd: "0 < sin ?d"
    by (rule sin_gt_zero)
  have cd: "0 < cos ?d"
    by (rule declination_cos_pos)
  have "0 \<le> ?w" and "?w \<le> pi"
    using sunset_angle_45N_midsummer by linarith+
  then have sw: "0 \<le> sin ?w"
    by (rule sin_ge_zero)
  have first: "0 < ?w * (sqrt 2 / 2) * sin ?d"
    using sunset_angle_45N_midsummer(1) s sd by (intro mult_pos_pos)
  have second: "0 \<le> (sqrt 2 / 2) * cos ?d * sin ?w"
    using s cd sw by (intro mult_nonneg_nonneg) simp_all
  have bracket: "0 < ?w * sin (45 * pi / 180) * sin ?d + cos (45 * pi / 180) * cos ?d * sin ?w"
    unfolding phi sin_45 cos_45 using first second by linarith
  have dr: "0 < 1 + 0.033 * cos (2 * pi * 180 / 365)"
    by (rule distance_factor_pos) (rule cos_ge_minus_one)
  have c: "0 < (24 * 60 / pi) * 0.082"
    by simp
  show ?thesis
    unfolding spec_Ra_def by (rule mult_pos_pos [OF mult_pos_pos [OF c dr] bracket])
qed

lemma Rn_45N_midsummer:
  assumes "0 \<le> ea" and "0 \<le> altitude"
  shows "\<exists>v. Rn 45 180 n ea T_min T_max altitude = Inr v"
proof -
  have c1: "cos (45 * pi / 180) \<noteq> 0"
    by (simp add: cos_45)
  have t45: "tan (45 * pi / 180) = 1"
    by (simp add: tan_45)
  have range: "- 1 \<le> - tan (45 * pi / 180) * tan (spec_declination 180)"
    "- tan (45 * pi / 180) * tan (spec_declination 180) \<le> 1"
    unfolding t45 using tan_declination_midsummer by linarith+
  have N: "spec_N 45 180 \<noteq> 0"
    using sunset_angle_45N_midsummer(1) by (simp add: spec_N_def)
  have "0 < 0.75 + 2 / 10 ^ 5 * altitude"
    using assms(2) by (simp add: add_pos_nonneg)
  then have Rs0: "spec_Rs0 45 180 altitude \<noteq> 0"
    using Ra_45N_midsummer by (simp add: spec_Rs0_def)
  show ?thesis
    using c1 range N assms(1) Rs0 by (simp only: Rn_eq_Inr_iff simp_thms)
qed

section \<open>The net longwave term\<close>

text \<open>
  C3. Whenever \<open>Rn\<close> has a result, it is the net shortwave radiation \<open>(1 - 0.23) * Rs\<close>
  minus the net longwave term
  \<open>4.903e-9 * ((Tmin + 273.16)^4 + (Tmax + 273)^4) / 2 * (0.34 - 0.14 * sqrt ea) *
  (1.35 * Rs / Rs0 - 0.35)\<close>, with the offset 273.16 on \<open>Tmin\<close> and 273 on \<open>Tmax\<close>.
\<close>

theorem Rn_net_longwave:
  assumes "Rn lat doy n ea T_min T_max altitude = Inr v"
  shows "v = (1 - 0.23) * spec_Rs lat doy n
             - 4.903 / 10 ^ 9 * (((T_min + 273.16) ^ 4 + (T_max + 273) ^ 4) / 2)
               * (0.34 - 0.14 * sqrt ea)
               * (1.35 * spec_Rs lat doy n / spec_Rs0 lat doy altitude - 0.35)"
  using assms by (simp only: Rn_eq_Inr_iff)

theorem Rn_net_longwave_witness:
  "Rn 45 180 9 1.4 12 25 100 =
     Inr ((1 - 0.23) * spec_Rs 45 180 9
          - 4.903 / 10 ^ 9 * (((12 + 273.16) ^ 4 + (25 + 273) ^ 4) / 2)
            * (0.34 - 0.14 * sqrt 1.4)
            * (1.35 * spec_Rs 45 180 9 / spec_Rs0 45 180 100 - 0.35))"
proof -
  obtain v where v: "Rn 45 180 9 1.4 12 25 100 = Inr v"
    using Rn_45N_midsummer [of "1.4" 100 9 12 25] by auto
  from Rn_net_longwave [OF v] v show ?thesis
    by (simp only:)
qed


section \<open>Arithmetic on numpy.float64 values\<close>

lemma isfinite_iff: "isfinite v \<longleftrightarrow> (\<exists>a. v = Fin a)"
  by (cases v) simp_all

lemma isfinite_uminus [simp]: "isfinite (- a) \<longleftrightarrow> isfinite a"
  by (cases a) simp_all

lemma isfinite_plus [simp]: "isfinite (a + b) \<longleftrightarrow> isfinite a \<and> isfinite b"
  by (cases a; cases b) simp_all

lemma isfinite_minus [simp]: "isfinite (a - b) \<longleftrightarrow> isfinite a \<and> isfinite b"
  by (simp add: minus_val_def)

lemma isfinite_times [simp]: "isfinite (a * b) \<longleftrightarrow> isfinite a \<and> isfinite b"
  by (cases a; cases b) simp_all

lemma isfinite_np_div_Fin [simp]: "isfinite (np_div a (Fin b)) \<longleftrightarrow> isfinite a \<and> b \<noteq> 0"
  by (cases a) simp_all


lemma isfinite_np_pow_half_Fin [simp]: "isfinite (np_pow_half (Fin a)) \<longleftrightarrow> 0 \<le> a"
  by auto

lemma isfinite_np_round1 [simp]: "isfinite (np_round1 v) \<longleftrightarrow> isfinite v"
  by (cases v) simp_all

lemma Fin_minus [simp]: "Fin a - Fin b = Fin (a - b)"
  by (simp add: minus_val_def)

section \<open>The numpy.float64 functions and the formulas\<close>







section \<open>Rounding and the rows\<close>






section \<open>The loop and the run\<close>






lemma read_data_Csv:
  assumes "fs file = Csv t"
  shows "read_data fs file out = (Inr t, out)"
  using assms by (simp add: read_data_def)




section \<open>The example scenario\<close>







section \<open>The run attaches the rounded Penman-Monteith value\<close>



section \<open>Polar latitudes\<close>










section \<open>The zero divisor of the slope\<close>



section \<open>The missing file\<close>

text \<open>
  C8, as amended. When the file is missing, \<open>read_data\<close> prints its message and goes on to
  \<open>return df\<close>; \<open>df\<close> was never assigned, so this raises UnboundLocalError.
  \<open>read_data\<close> returns nothing, and \<open>main\<close> ends with that error after the one message:
  the loop is not entered and nothing is written.
\<close>

theorem read_data_missing_file:
  assumes "fs file = Missing"
  shows "read_data fs file out =
           (Inl UnboundLocalError,
            out @ [''File '' @ [CHR 0x27] @ file @ [CHR 0x27] @ '' not found.'']) \<and>
         main fs file result =
           (Inl UnboundLocalError,
            [''File '' @ [CHR 0x27] @ file @ [CHR 0x27] @ '' not found.''])"
  using assms by (simp add: read_data_def main_def)

theorem read_data_missing_file_witness:
  "(\<lambda>p. Missing) ''weather.csv'' = Missing \<and>
   read_data (\<lambda>p. Missing) ''weather.csv'' [] =
     (Inl UnboundLocalError,
      [] @ [''File '' @ [CHR 0x27] @ ''weather.csv'' @ [CHR 0x27] @ '' not found.'']) \<and>
   main (\<lambda>p. Missing) ''weather.csv'' ''result.csv'' =
     (Inl UnboundLocalError,
      [''File '' @ [CHR 0x27] @ ''weather.csv'' @ [CHR 0x27] @ '' not found.''])"
  using read_data_missing_file [of "\<lambda>p. Missing" "''weather.csv''" "[]" "''result.csv''"]
  by simp

text \<open>With a missing file \<open>read_data\<close> returns no table, and \<open>main\<close> does not continue.\<close>

theorem read_data_returns_counterexample:
  "\<not> (\<exists>df. fst (read_data (\<lambda>p. Missing) ''data.csv'' []) = Inr df) \<and>
   fst (main (\<lambda>p. Missing) ''data.csv'' ''out.csv'') = Inl UnboundLocalError"
  by (simp add: read_data_def main_def)

end
